theory Spec2Isabelle
  imports Complex_Main "HOL-Library.List_Lexorder" "HOL-Library.Multiset"
begin

section \<open>Values\<close>

text \<open>
  The engine of \<^verbatim>\<open>LabReport.py\<close> is written over untyped Python values: the facts come
  from number inputs, the rules from \<^verbatim>\<open>json.loads\<close>. The values such a program can hold
  are \<^verbatim>\<open>None\<close>, booleans, integers, floats, strings, lists and dictionaries with string
  keys.

  A Python string is a sequence of Unicode code points (the rule catalog itself contains
  U+2013), so a string is a list of code points; \<open>str\<close> turns an ASCII literal into one.
  A float is represented by the rational number it denotes, which makes every comparison
  exact, as Python's comparison of two floats, or of a float with an integer, is. The
  special floats (NaN and the infinities) are not represented. A dictionary is the list
  of its items in insertion order; Python's dictionaries have distinct keys.
\<close>

type_synonym pystr = "nat list"

definition str :: "string \<Rightarrow> pystr" where
  "str s = map of_char s"

datatype pyval =
    PNone
  | PBool bool
  | PInt int
  | PFloat rat
  | PStr pystr
  | PList "pyval list"
  | PDict "(pystr \<times> pyval) list"

datatype error = TypeError | AttributeError | ValueError | IndexError

text \<open>Booleans, integers and floats compare with each other by numeric value.\<close>

fun num_of :: "pyval \<Rightarrow> rat option" where
  "num_of (PBool b) = Some (if b then 1 else 0)"
| "num_of (PInt i) = Some (of_int i)"
| "num_of (PFloat r) = Some r"
| "num_of _ = None"

text \<open>
  \<^verbatim>\<open>a == b\<close>. Lists are equal when they have the same length and equal elements;
  dictionaries when they have the same number of items and every item of the first is
  found, with an equal value, in the second. Equality never raises on these values.
\<close>

fun py_eq :: "pyval \<Rightarrow> pyval \<Rightarrow> bool"
  and py_eq_list :: "pyval list \<Rightarrow> pyval list \<Rightarrow> bool"
  and py_eq_items :: "(pystr \<times> pyval) list \<Rightarrow> (pystr \<times> pyval) list \<Rightarrow> bool" where
  "py_eq PNone b = (b = PNone)"
| "py_eq (PStr s) b = (b = PStr s)"
| "py_eq (PList xs) b = (case b of PList ys \<Rightarrow> py_eq_list xs ys | _ \<Rightarrow> False)"
| "py_eq (PDict d) b =
     (case b of PDict e \<Rightarrow> length d = length e \<and> py_eq_items d e | _ \<Rightarrow> False)"
| "py_eq a b = (case num_of b of Some y \<Rightarrow> num_of a = Some y | None \<Rightarrow> False)"
| "py_eq_list [] ys = (ys = [])"
| "py_eq_list (x # xs) ys =
     (case ys of [] \<Rightarrow> False | y # ys' \<Rightarrow> py_eq x y \<and> py_eq_list xs ys')"
| "py_eq_items [] e = True"
| "py_eq_items ((k, v) # d) e =
     ((case map_of e k of None \<Rightarrow> False | Some w \<Rightarrow> py_eq v w) \<and> py_eq_items d e)"

text \<open>
  The ordered comparisons \<^verbatim>\<open><\<close>, \<^verbatim>\<open><=\<close>, \<^verbatim>\<open>>\<close>, \<^verbatim>\<open>>=\<close>. Numbers compare by value,
  strings by code points, lists at the first position where the elements are not equal
  (by length when there is none); every other pair of operands raises \<^verbatim>\<open>TypeError\<close>.
\<close>

datatype cmpop = Lt | Le | Gt | Ge

fun cmp_ord :: "cmpop \<Rightarrow> 'a::linorder \<Rightarrow> 'a \<Rightarrow> bool" where
  "cmp_ord Lt x y = (x < y)"
| "cmp_ord Le x y = (x \<le> y)"
| "cmp_ord Gt x y = (x > y)"
| "cmp_ord Ge x y = (x \<ge> y)"

fun py_cmp :: "cmpop \<Rightarrow> pyval \<Rightarrow> pyval \<Rightarrow> error + bool"
  and py_cmp_list :: "cmpop \<Rightarrow> pyval list \<Rightarrow> pyval list \<Rightarrow> error + bool" where
  "py_cmp c (PStr s) b = (case b of PStr t \<Rightarrow> Inr (cmp_ord c s t) | _ \<Rightarrow> Inl TypeError)"
| "py_cmp c (PList xs) b =
     (case b of PList ys \<Rightarrow> py_cmp_list c xs ys | _ \<Rightarrow> Inl TypeError)"
| "py_cmp c a b =
     (case (num_of a, num_of b) of
        (Some x, Some y) \<Rightarrow> Inr (cmp_ord c x y)
      | _ \<Rightarrow> Inl TypeError)"
| "py_cmp_list c (x # xs) (y # ys) =
     (if py_eq x y then py_cmp_list c xs ys else py_cmp c x y)"
| "py_cmp_list c xs ys = Inr (cmp_ord c (length xs) (length ys))"

text \<open>
  Hashing: lists and dictionaries are unhashable, so looking one up in a dictionary
  raises \<^verbatim>\<open>TypeError\<close>. Every dictionary here has string keys, and a hashable value
  that is not a string is equal to none of them.
\<close>

fun hashable :: "pyval \<Rightarrow> bool" where
  "hashable (PList xs) = False"
| "hashable (PDict d) = False"
| "hashable v = True"

fun lookup :: "(pystr \<rightharpoonup> 'a) \<Rightarrow> pyval \<Rightarrow> 'a option" where
  "lookup m (PStr s) = m s"
| "lookup m v = None"

text \<open>\<^verbatim>\<open>a in b\<close>: membership in a list, substring of a string, key of a dictionary.\<close>

fun starts_with :: "'a list \<Rightarrow> 'a list \<Rightarrow> bool" where
  "starts_with xs [] = True"
| "starts_with [] (p # ps) = False"
| "starts_with (x # xs) (p # ps) = (x = p \<and> starts_with xs ps)"

fun substring :: "'a list \<Rightarrow> 'a list \<Rightarrow> bool" where
  "substring ps [] = (ps = [])"
| "substring ps (x # xs) = (starts_with (x # xs) ps \<or> substring ps xs)"

fun py_in :: "pyval \<Rightarrow> pyval \<Rightarrow> error + bool" where
  "py_in a (PList xs) = Inr (list_ex (\<lambda>x. py_eq x a) xs)"
| "py_in a (PStr t) = (case a of PStr s \<Rightarrow> Inr (substring s t) | _ \<Rightarrow> Inl TypeError)"
| "py_in a (PDict d) =
     (if hashable a then Inr (lookup (map_of d) a \<noteq> None) else Inl TypeError)"
| "py_in a b = Inl TypeError"

definition py_not_in :: "pyval \<Rightarrow> pyval \<Rightarrow> error + bool" where
  "py_not_in a b = (case py_in a b of Inl e \<Rightarrow> Inl e | Inr r \<Rightarrow> Inr (\<not> r))"

text \<open>\<^verbatim>\<open>len(v)\<close>, iteration over \<open>v\<close>, and \<^verbatim>\<open>v.get(key, default)\<close>.\<close>

fun py_len :: "pyval \<Rightarrow> error + nat" where
  "py_len (PStr s) = Inr (length s)"
| "py_len (PList xs) = Inr (length xs)"
| "py_len (PDict d) = Inr (length d)"
| "py_len v = Inl TypeError"

fun py_iter :: "pyval \<Rightarrow> error + pyval list" where
  "py_iter (PStr s) = Inr (map (\<lambda>c. PStr [c]) s)"
| "py_iter (PList xs) = Inr xs"
| "py_iter (PDict d) = Inr (map (\<lambda>kv. PStr (fst kv)) d)"
| "py_iter v = Inl TypeError"

fun py_get :: "pyval \<Rightarrow> pystr \<Rightarrow> pyval \<Rightarrow> error + pyval" where
  "py_get (PDict d) k dflt = Inr (case map_of d k of None \<Rightarrow> dflt | Some v \<Rightarrow> v)"
| "py_get v k dflt = Inl AttributeError"

section \<open>The operator registry and the default catalog\<close>

text \<open>
  \<^verbatim>\<open>
  OPS = {"==": operator.eq, "!=": operator.ne, ">": operator.gt, ">=": operator.ge,
         "<": operator.lt, "<=": operator.le,
         "in": lambda a, b: a in b, "not_in": lambda a, b: a not in b}
  \<close>
\<close>

definition OPS :: "pystr \<rightharpoonup> (pyval \<Rightarrow> pyval \<Rightarrow> error + bool)" where
  "OPS = map_of
     [(str ''=='', \<lambda>a b. Inr (py_eq a b)),
      (str ''!='', \<lambda>a b. Inr (\<not> py_eq a b)),
      (str ''>'', py_cmp Gt),
      (str ''>='', py_cmp Ge),
      (str ''<'', py_cmp Lt),
      (str ''<='', py_cmp Le),
      (str ''in'', py_in),
      (str ''not_in'', py_not_in)]"

text \<open>
  The float literals of the catalog, as the doubles Python reads them to:
  \<^verbatim>\<open>3.7\<close>, \<^verbatim>\<open>3.3\<close> and \<^verbatim>\<open>2.5\<close>.
\<close>

definition float_3_7 :: rat where
  "float_3_7 = 4165829655317709 / 1125899906842624"

definition float_3_3 :: rat where
  "float_3_3 = 3715469692580659 / 1125899906842624"

definition float_2_5 :: rat where
  "float_2_5 = 5 / 2"

definition condition :: "string \<Rightarrow> string \<Rightarrow> pyval \<Rightarrow> pyval" where
  "condition field op v = PList [PStr (str field), PStr (str op), v]"

definition action :: "string \<Rightarrow> string \<Rightarrow> pyval" where
  "action decision reason =
     PDict [(str ''decision'', PStr (str decision)), (str ''reason'', PStr (str reason))]"

definition rule :: "pystr \<Rightarrow> int \<Rightarrow> pyval list \<Rightarrow> pyval \<Rightarrow> pyval" where
  "rule name priority conditions act =
     PDict [(str ''name'', PStr name), (str ''priority'', PInt priority),
            (str ''conditions'', PList conditions), (str ''action'', act)]"

definition top_merit_rule :: pyval where
  "top_merit_rule = rule (str ''Top merit candidate'') 100
     [condition ''cgpa'' ''>='' (PFloat float_3_7),
      condition ''co_curricular_score'' ''>='' (PInt 80),
      condition ''family_income'' ''<='' (PInt 8000),
      condition ''disciplinary_actions'' ''=='' (PInt 0)]
     (action ''AWARD_FULL''
        ''Excellent academic & co-curricular performance, with acceptable need'')"

definition partial_rule :: pyval where
  "partial_rule = rule (str ''Good candidate - partial scholarship'') 80
     [condition ''cgpa'' ''>='' (PFloat float_3_3),
      condition ''co_curricular_score'' ''>='' (PInt 60),
      condition ''family_income'' ''<='' (PInt 12000),
      condition ''disciplinary_actions'' ''<='' (PInt 1)]
     (action ''AWARD_PARTIAL'' ''Good academic & involvement record with moderate need'')"

definition need_based_rule :: pyval where
  "need_based_rule = rule (str ''Need-based review'') 70
     [condition ''cgpa'' ''>='' (PFloat float_2_5),
      condition ''family_income'' ''<='' (PInt 4000)]
     (action ''REVIEW'' ''High need but borderline academic score'')"

text \<open>The name of the fourth rule has an en dash, U+2013, which is code point 8211.\<close>

definition low_cgpa_rule :: pyval where
  "low_cgpa_rule = rule (str ''Low CGPA '' @ [8211] @ str '' not eligible'') 95
     [condition ''cgpa'' ''<'' (PFloat float_2_5)]
     (action ''REJECT'' ''CGPA below minimum scholarship requirement'')"

definition disciplinary_rule :: pyval where
  "disciplinary_rule = rule (str ''Serious disciplinary record'') 90
     [condition ''disciplinary_actions'' ''>='' (PInt 2)]
     (action ''REJECT'' ''Too many disciplinary records'')"

definition DEFAULT_RULES :: "pyval list" where
  "DEFAULT_RULES =
     [top_merit_rule, partial_rule, need_based_rule, low_cgpa_rule, disciplinary_rule]"

section \<open>The engine\<close>

text \<open>
  \<^verbatim>\<open>
  def evaluate_condition(facts, cond):
      if len(cond) != 3:
          return False
      field, op, value = cond
      if field not in facts or op not in OPS:
          return False
      try:
          return OPS[op](facts[field], value)
      except Exception:
          return False
  \<close>
  \<^verbatim>\<open>len\<close> and the two membership tests are outside the \<^verbatim>\<open>try\<close>: what they raise
  leaves the function. The second membership test is only made when the first finds
  the field.
\<close>

definition evaluate_condition :: "(pystr \<rightharpoonup> pyval) \<Rightarrow> pyval \<Rightarrow> error + bool" where
  "evaluate_condition facts cond =
     (case py_len cond of
        Inl e \<Rightarrow> Inl e
      | Inr n \<Rightarrow>
          if n \<noteq> 3 then Inr False
          else (case py_iter cond of
                  Inl e \<Rightarrow> Inl e
                | Inr [field, op, val] \<Rightarrow>
                    if \<not> hashable field then Inl TypeError
                    else (case lookup facts field of
                            None \<Rightarrow> Inr False
                          | Some x \<Rightarrow>
                              if \<not> hashable op then Inl TypeError
                              else (case lookup OPS op of
                                      None \<Rightarrow> Inr False
                                    | Some p \<Rightarrow>
                                        (case p x val of
                                           Inl e \<Rightarrow> Inr False
                                         | Inr b \<Rightarrow> Inr b)))
                | Inr other \<Rightarrow> Inl ValueError))"

text \<open>
  \<^verbatim>\<open>
  def rule_matches(facts, rule):
      return all(evaluate_condition(facts, c) for c in rule.get("conditions", []))
  \<close>
  \<^verbatim>\<open>all\<close> stops at the first condition that is false.
\<close>

fun all_conditions :: "(pystr \<rightharpoonup> pyval) \<Rightarrow> pyval list \<Rightarrow> error + bool" where
  "all_conditions facts [] = Inr True"
| "all_conditions facts (c # cs) =
     (case evaluate_condition facts c of
        Inl e \<Rightarrow> Inl e
      | Inr b \<Rightarrow> if b then all_conditions facts cs else Inr False)"

definition rule_matches :: "(pystr \<rightharpoonup> pyval) \<Rightarrow> pyval \<Rightarrow> error + bool" where
  "rule_matches facts r =
     (case py_get r (str ''conditions'') (PList []) of
        Inl e \<Rightarrow> Inl e
      | Inr conds \<Rightarrow>
          (case py_iter conds of
             Inl e \<Rightarrow> Inl e
           | Inr cs \<Rightarrow> all_conditions facts cs))"

text \<open>The comprehension \<^verbatim>\<open>[r for r in rules if rule_matches(facts, r)]\<close>.\<close>

fun fired_rules :: "(pystr \<rightharpoonup> pyval) \<Rightarrow> pyval list \<Rightarrow> error + pyval list" where
  "fired_rules facts [] = Inr []"
| "fired_rules facts (r # rs) =
     (case rule_matches facts r of
        Inl e \<Rightarrow> Inl e
      | Inr m \<Rightarrow>
          (case fired_rules facts rs of
             Inl e \<Rightarrow> Inl e
           | Inr fs \<Rightarrow> Inr (if m then r # fs else fs)))"

text \<open>
  \<^verbatim>\<open>sorted(fired, key=lambda r: r.get("priority", 0), reverse=True)\<close>.
  Python computes the key of every element first, then sorts the elements by their keys
  with \<^verbatim>\<open><\<close> alone, stably, also under \<^verbatim>\<open>reverse=True\<close>; a comparison that raises
  ends the sort. The sort is written as the insertion sort that gives this order: an
  element goes behind the elements whose key is greater than its own, and in front of
  the others, which it preceded in the input.
\<close>

definition priority_key :: "pyval \<Rightarrow> error + pyval" where
  "priority_key r = py_get r (str ''priority'') (PInt 0)"

fun with_keys :: "('a \<Rightarrow> error + pyval) \<Rightarrow> 'a list \<Rightarrow> error + (pyval \<times> 'a) list" where
  "with_keys key [] = Inr []"
| "with_keys key (x # xs) =
     (case key x of
        Inl e \<Rightarrow> Inl e
      | Inr k \<Rightarrow>
          (case with_keys key xs of
             Inl e \<Rightarrow> Inl e
           | Inr kxs \<Rightarrow> Inr ((k, x) # kxs)))"

fun insert_desc :: "pyval \<times> 'a \<Rightarrow> (pyval \<times> 'a) list \<Rightarrow> error + (pyval \<times> 'a) list" where
  "insert_desc x [] = Inr [x]"
| "insert_desc x (y # ys) =
     (case py_cmp Lt (fst x) (fst y) of
        Inl e \<Rightarrow> Inl e
      | Inr below \<Rightarrow>
          if below
          then (case insert_desc x ys of Inl e \<Rightarrow> Inl e | Inr zs \<Rightarrow> Inr (y # zs))
          else Inr (x # y # ys))"

fun sort_desc :: "(pyval \<times> 'a) list \<Rightarrow> error + (pyval \<times> 'a) list" where
  "sort_desc [] = Inr []"
| "sort_desc (x # xs) =
     (case sort_desc xs of Inl e \<Rightarrow> Inl e | Inr ys \<Rightarrow> insert_desc x ys)"

definition sorted_reverse :: "('a \<Rightarrow> error + pyval) \<Rightarrow> 'a list \<Rightarrow> error + 'a list" where
  "sorted_reverse key xs =
     (case with_keys key xs of
        Inl e \<Rightarrow> Inl e
      | Inr kxs \<Rightarrow>
          (case sort_desc kxs of
             Inl e \<Rightarrow> Inl e
           | Inr s \<Rightarrow> Inr (map snd s)))"

text \<open>
  \<^verbatim>\<open>
  def run_rules(facts, rules):
      fired = [r for r in rules if rule_matches(facts, r)]
      if not fired:
          return ({"decision": "REVIEW", "reason": "No rule matched"}, [])
      fired_sorted = sorted(fired, key=lambda r: r.get("priority", 0), reverse=True)
      best = fired_sorted[0].get("action", {"decision": "REVIEW", "reason": "No action"})
      return best, fired_sorted
  \<close>
\<close>

definition no_rule_matched :: pyval where
  "no_rule_matched = action ''REVIEW'' ''No rule matched''"

definition no_action :: pyval where
  "no_action = action ''REVIEW'' ''No action''"

definition run_rules :: "(pystr \<rightharpoonup> pyval) \<Rightarrow> pyval list \<Rightarrow> error + pyval \<times> pyval list" where
  "run_rules facts rules =
     (case fired_rules facts rules of
        Inl e \<Rightarrow> Inl e
      | Inr fired \<Rightarrow>
          if fired = [] then Inr (no_rule_matched, [])
          else (case sorted_reverse priority_key fired of
                  Inl e \<Rightarrow> Inl e
                | Inr fired_sorted \<Rightarrow>
                    (case fired_sorted of
                       [] \<Rightarrow> Inl IndexError
                     | first # rest \<Rightarrow>
                         (case py_get first (str ''action'') no_action of
                            Inl e \<Rightarrow> Inl e
                          | Inr best \<Rightarrow> Inr (best, fired_sorted)))))"

section \<open>Notions used by the properties\<close>

text \<open>The rules of a list that match the facts, in the order of the list.\<close>

definition matching :: "(pystr \<rightharpoonup> pyval) \<Rightarrow> pyval list \<Rightarrow> pyval list" where
  "matching facts rules = filter (\<lambda>r. rule_matches facts r = Inr True) rules"

text \<open>
  The priority of a rule as a number: the value under \<^verbatim>\<open>"priority"\<close>, 0 when the key is
  absent; \<open>None\<close> when that value is not a number.
\<close>

definition numeric_priority :: "pyval \<Rightarrow> rat option" where
  "numeric_priority r =
     (case priority_key r of Inl e \<Rightarrow> None | Inr k \<Rightarrow> num_of k)"

text \<open>
  Rule lists on which the engine is shown to return. A condition has to have a length,
  and a list of three components has to have a hashable field and a hashable operator;
  a rule has to be a dictionary whose conditions can be iterated over and whose priority
  is a number. Conditions of the wrong arity, on unknown fields, with unknown operators
  or with operands that do not compare are all admitted.
\<close>

fun sized :: "pyval \<Rightarrow> bool" where
  "sized (PStr s) = True"
| "sized (PList xs) = True"
| "sized (PDict d) = True"
| "sized v = False"

fun well_formed_condition :: "pyval \<Rightarrow> bool" where
  "well_formed_condition (PList [field, op, val]) = (hashable field \<and> hashable op)"
| "well_formed_condition c = sized c"

definition well_formed_rule :: "pyval \<Rightarrow> bool" where
  "well_formed_rule r =
     ((case py_get r (str ''conditions'') (PList []) of
         Inl e \<Rightarrow> False
       | Inr conds \<Rightarrow>
           (case py_iter conds of
              Inl e \<Rightarrow> False
            | Inr cs \<Rightarrow> list_all well_formed_condition cs))
      \<and> numeric_priority r \<noteq> None)"

text \<open>Facts and rule lists of the scenarios below.\<close>

definition applicant :: "pyval \<Rightarrow> pyval \<Rightarrow> pyval \<Rightarrow> pyval \<Rightarrow> (pystr \<rightharpoonup> pyval)" where
  "applicant cgpa co income disciplinary =
     map_of [(str ''cgpa'', cgpa), (str ''co_curricular_score'', co),
             (str ''family_income'', income), (str ''disciplinary_actions'', disciplinary)]"

text \<open>The double that Python reads \<^verbatim>\<open>3.9\<close> to.\<close>

definition float_3_9 :: rat where
  "float_3_9 = 8782019273372467 / 2251799813685248"

definition facts_low_cgpa :: "pystr \<rightharpoonup> pyval" where
  "facts_low_cgpa = applicant (PFloat 2) (PInt 50) (PInt 3000) (PInt 0)"

definition facts_disciplinary :: "pystr \<rightharpoonup> pyval" where
  "facts_disciplinary = applicant (PFloat float_3_9) (PInt 90) (PInt 1000) (PInt 3)"

definition facts_rich :: "pystr \<rightharpoonup> pyval" where
  "facts_rich = applicant (PFloat float_3_9) (PInt 95) (PInt 100000) (PInt 0)"

definition low_cgpa_action :: pyval where
  "low_cgpa_action = PDict
     [(str ''decision'', PStr (str ''REJECT'')),
      (str ''reason'', PStr (str ''CGPA below minimum scholarship requirement''))]"

definition disciplinary_action :: pyval where
  "disciplinary_action = PDict
     [(str ''decision'', PStr (str ''REJECT'')),
      (str ''reason'', PStr (str ''Too many disciplinary records''))]"

text \<open>
  A condition whose operator is a list:
  \<^verbatim>\<open>["cgpa", [">="], 3]\<close>, and a rule list that holds it.
\<close>

definition list_operator_condition :: pyval where
  "list_operator_condition = PList [PStr (str ''cgpa''), PList [PStr (str ''>='')], PInt 3]"

definition list_operator_rules :: "pyval list" where
  "list_operator_rules =
     [PDict [(str ''name'', PStr (str ''Operator given as a list'')),
             (str ''priority'', PInt 10),
             (str ''conditions'', PList [list_operator_condition]),
             (str ''action'', action ''REVIEW'' ''unreachable'')]]"

text \<open>
  A rule list with conditions of the wrong arity, on an unknown field, with an unknown
  operator and with operands that do not compare, followed by two catch-all rules.
\<close>

definition malformed_rules :: "pyval list" where
  "malformed_rules =
     [PDict [(str ''priority'', PInt 50),
             (str ''conditions'', PList [PList [PStr (str ''cgpa''), PStr (str ''>='')]])],
      PDict [(str ''priority'', PInt 40),
             (str ''conditions'', PList [condition ''height'' ''>='' (PInt 3)])],
      PDict [(str ''priority'', PInt 30),
             (str ''conditions'', PList [condition ''cgpa'' ''~='' (PInt 3)])],
      PDict [(str ''priority'', PInt 20),
             (str ''conditions'', PList [condition ''cgpa'' ''>='' (PStr (str ''high''))])],
      PDict [(str ''priority'', PInt 10),
             (str ''conditions'', PList [condition ''cgpa'' ''in'' (PInt 3)])],
      PDict [(str ''priority'', PInt 5), (str ''conditions'', PList []),
             (str ''action'', action ''REVIEW'' ''catch-all'')],
      PDict []]"

text \<open>
  Rules without conditions, with equal priorities, a float priority, no priority, and
  an action that is \<^verbatim>\<open>null\<close>.
\<close>

definition rule_a :: pyval where
  "rule_a = PDict [(str ''name'', PStr (str ''a'')), (str ''priority'', PInt 1)]"

definition rule_b :: pyval where
  "rule_b = PDict [(str ''name'', PStr (str ''b'')), (str ''priority'', PInt 5),
                   (str ''action'', PNone)]"

definition rule_c :: pyval where
  "rule_c = PDict [(str ''name'', PStr (str ''c''))]"

definition rule_d :: pyval where
  "rule_d = PDict [(str ''name'', PStr (str ''d'')), (str ''priority'', PFloat 5),
                   (str ''action'', action ''REJECT'' ''d'')]"

definition rule_e :: pyval where
  "rule_e = PDict [(str ''name'', PStr (str ''e'')), (str ''priority'', PInt 9),
                   (str ''conditions'', PList [condition ''cgpa'' ''<'' (PInt 0)])]"

definition tie_rules :: "pyval list" where
  "tie_rules = [rule_a, rule_b, rule_c, rule_d, rule_e]"

text \<open>A single catch-all rule whose action is the empty object.\<close>

definition empty_object_rules :: "pyval list" where
  "empty_object_rules =
     [PDict [(str ''name'', PStr (str ''no decision'')), (str ''action'', PDict [])]]"

text \<open>
  Two catch-all rules in ascending order of priority; the one of higher priority has
  no action.
\<close>

definition rule_f :: pyval where
  "rule_f = PDict [(str ''name'', PStr (str ''f'')), (str ''priority'', PInt 9)]"

definition fallback_rules :: "pyval list" where
  "fallback_rules = [rule_d, rule_f]"

section \<open>Auxiliary facts\<close>

lemma str_eq_iff [simp]: "str a = str b \<longleftrightarrow> a = b"
  unfolding str_def by (simp add: inj_map_eq_map inj_on_def)

lemmas catalog_defs =
  DEFAULT_RULES_def top_merit_rule_def partial_rule_def need_based_rule_def
  low_cgpa_rule_def disciplinary_rule_def rule_def condition_def action_def
  float_3_7_def float_3_3_def float_2_5_def float_3_9_def applicant_def

lemmas engine_defs =
  run_rules_def rule_matches_def evaluate_condition_def OPS_def sorted_reverse_def
  priority_key_def no_rule_matched_def no_action_def

subsection \<open>The comprehension\<close>

lemma fired_rules_total:
  "\<forall>r\<in>set rules. \<exists>b. rule_matches facts r = Inr b \<Longrightarrow>
   fired_rules facts rules = Inr (matching facts rules)"
  by (induction rules) (auto simp: matching_def)

lemma fired_rules_matching:
  "fired_rules facts rules = Inr fs \<Longrightarrow> fs = matching facts rules"
  by (induction rules arbitrary: fs) (auto simp: matching_def split: sum.splits if_splits)

lemma matching_is_dict:
  "r \<in> set (matching facts rules) \<Longrightarrow> \<exists>d. r = PDict d"
  by (cases r) (auto simp: matching_def rule_matches_def)

subsection \<open>The sort on numeric keys\<close>

lemma py_cmp_numeric:
  "num_of a = Some x \<Longrightarrow> num_of b = Some y \<Longrightarrow> py_cmp c a b = Inr (cmp_ord c x y)"
  by (cases a; cases b) simp_all

lemma insert_desc_numeric:
  assumes "num_of (fst x) = Some (f (snd x))"
    and "\<forall>y\<in>set ys. num_of (fst y) = Some (f (snd y))"
  shows "insert_desc x ys = Inr (insort_key (\<lambda>p. - f (snd p)) x ys)"
  using assms by (induction ys) (auto simp: py_cmp_numeric)

lemma sort_desc_numeric:
  assumes "\<forall>y\<in>set ys. num_of (fst y) = Some (f (snd y))"
  shows "sort_desc ys = Inr (sort_key (\<lambda>p. - f (snd p)) ys)"
  using assms by (induction ys) (auto simp: insert_desc_numeric)

lemma with_keys_numeric:
  assumes "\<forall>x\<in>set xs. \<exists>k. key x = Inr k \<and> num_of k = Some (f x)"
  shows "\<exists>kxs. with_keys key xs = Inr kxs \<and> map snd kxs = xs
           \<and> (\<forall>y\<in>set kxs. num_of (fst y) = Some (f (snd y)))"
  using assms by (induction xs) auto

lemma map_snd_insort_key:
  "map snd (insort_key (\<lambda>p. g (snd p)) x ys) = insort_key g (snd x) (map snd ys)"
  by (induction ys) auto

lemma map_snd_sort_key:
  "map snd (sort_key (\<lambda>p. g (snd p)) ys) = sort_key g (map snd ys)"
  by (induction ys) (auto simp: map_snd_insort_key)

lemma sorted_reverse_numeric:
  assumes "\<forall>x\<in>set xs. \<exists>k. key x = Inr k \<and> num_of k = Some (f x)"
  shows "sorted_reverse key xs = Inr (sort_key (\<lambda>x. - f x) xs)"
proof -
  from with_keys_numeric [OF assms] obtain kxs where
    k: "with_keys key xs = Inr kxs" "map snd kxs = xs"
       "\<forall>y\<in>set kxs. num_of (fst y) = Some (f (snd y))"
    by blast
  have "map snd (sort_key (\<lambda>p. - f (snd p)) kxs) = sort_key (\<lambda>x. - f x) xs"
    using map_snd_sort_key [of "\<lambda>x. - f x" kxs] k(2) by simp
  then show ?thesis
    by (simp add: sorted_reverse_def k(1) sort_desc_numeric [OF k(3)])
qed

lemma numeric_priority_key:
  "numeric_priority r = Some x \<Longrightarrow> \<exists>k. priority_key r = Inr k \<and> num_of k = Some x"
  by (auto simp: numeric_priority_def split: sum.splits)

text \<open>
  With numeric priorities the engine returns the matching rules in the order of the
  library's stable sort on the negated priority.
\<close>

lemma run_rules_numeric:
  assumes "\<forall>r\<in>set rules. \<exists>b. rule_matches facts r = Inr b"
    and "\<forall>r\<in>set (matching facts rules). numeric_priority r \<noteq> None"
    and "matching facts rules \<noteq> []"
  shows "\<exists>best. run_rules facts rules =
           Inr (best, sort_key (\<lambda>r. - the (numeric_priority r)) (matching facts rules))"
proof -
  let ?fs = "matching facts rules"
  let ?s = "sort_key (\<lambda>r. - the (numeric_priority r)) ?fs"
  have f: "fired_rules facts rules = Inr ?fs"
    using assms(1) by (rule fired_rules_total)
  have "\<forall>x\<in>set ?fs. \<exists>k. priority_key x = Inr k \<and> num_of k = Some (the (numeric_priority x))"
    using assms(2) numeric_priority_key by fastforce
  then have s: "sorted_reverse priority_key ?fs = Inr ?s"
    by (rule sorted_reverse_numeric)
  have "?s \<noteq> []"
    using assms(3) by (metis length_sort list.size(3) length_0_conv)
  then obtain first rest where fr: "?s = first # rest"
    by (cases ?s) auto
  have "first \<in> set ?fs"
    using fr by (metis list.set_intros(1) set_sort)
  then obtain d where "first = PDict d"
    using matching_is_dict by blast
  then show ?thesis
    using f s fr assms(3) by (simp add: run_rules_def)
qed

subsection \<open>Conditions that cannot raise\<close>

lemma evaluate_condition_returns:
  assumes "well_formed_condition c"
  shows "\<exists>b. evaluate_condition facts c = Inr b"
proof (cases c)
  case (PList xs)
  show ?thesis
  proof (cases "length xs = 3")
    case True
    then obtain f op v where "xs = [f, op, v]"
      by (auto simp: length_Suc_conv numeral_3_eq_3)
    with assms PList show ?thesis
      by (auto simp: evaluate_condition_def split: option.splits sum.splits)
  next
    case False
    with PList show ?thesis by (auto simp: evaluate_condition_def)
  qed
next
  case (PStr s)
  then show ?thesis
    by (auto simp: evaluate_condition_def length_Suc_conv numeral_3_eq_3
        split: option.splits sum.splits list.splits)
next
  case (PDict d)
  then show ?thesis
    by (auto simp: evaluate_condition_def length_Suc_conv numeral_3_eq_3
        split: option.splits sum.splits list.splits)
qed (use assms in auto)

lemma all_conditions_returns:
  "list_all well_formed_condition cs \<Longrightarrow> \<exists>b. all_conditions facts cs = Inr b"
proof (induction cs)
  case Nil
  show ?case by auto
next
  case (Cons c cs)
  then obtain b where "evaluate_condition facts c = Inr b"
    using evaluate_condition_returns [of c facts] by auto
  with Cons show ?case by auto
qed

lemma rule_matches_returns:
  "well_formed_rule r \<Longrightarrow> \<exists>b. rule_matches facts r = Inr b"
  by (auto simp: well_formed_rule_def rule_matches_def all_conditions_returns
      split: sum.splits)

subsection \<open>The list and the action that are returned\<close>

lemma sorted_fired_properties:
  assumes "\<forall>r\<in>set ms. numeric_priority r \<noteq> None"
  shows "mset (sort_key (\<lambda>r. - the (numeric_priority r)) ms) = mset ms
         \<and> sorted_wrt (\<lambda>a b. the (numeric_priority a) \<ge> the (numeric_priority b))
              (sort_key (\<lambda>r. - the (numeric_priority r)) ms)
         \<and> (\<forall>p. filter (\<lambda>r. numeric_priority r = Some p)
                    (sort_key (\<lambda>r. - the (numeric_priority r)) ms)
                = filter (\<lambda>r. numeric_priority r = Some p) ms)"
proof -
  let ?key = "\<lambda>r. - the (numeric_priority r)"
  let ?fs = "sort_key ?key ms"
  have "sorted (map ?key ?fs)"
    by (rule sorted_sort_key)
  then have desc: "sorted_wrt (\<lambda>a b. the (numeric_priority a) \<ge> the (numeric_priority b)) ?fs"
    by (simp add: sorted_map)
  have stable: "filter (\<lambda>r. numeric_priority r = Some p) ?fs
                  = filter (\<lambda>r. numeric_priority r = Some p) ms" for p
  proof -
    have eq: "(numeric_priority r = Some p) = (?key r = - p)" if "r \<in> set ms" for r
      using that assms by auto
    have "filter (\<lambda>r. numeric_priority r = Some p) ?fs = filter (\<lambda>r. ?key r = - p) ?fs"
      by (rule filter_cong) (simp_all add: eq)
    also have "\<dots> = filter (\<lambda>r. ?key r = - p) ms"
      by (rule sort_key_stable)
    also have "\<dots> = filter (\<lambda>r. numeric_priority r = Some p) ms"
      by (rule filter_cong) (simp_all add: eq)
    finally show ?thesis .
  qed
  show ?thesis
    using desc stable by simp
qed

lemma returned_action_of_head:
  assumes "run_rules facts rules = Inr (best, fs)" and "fs \<noteq> []"
  shows "\<exists>d. hd fs = PDict d
           \<and> best = (case map_of d (str ''action'') of
                       Some v \<Rightarrow> v
                     | None \<Rightarrow> PDict [(str ''decision'', PStr (str ''REVIEW'')),
                                      (str ''reason'', PStr (str ''No action''))])"
proof -
  from assms obtain first rest where
    fs: "fs = first # rest" and
    get: "py_get first (str ''action'') no_action = Inr best"
    by (auto simp: run_rules_def split: sum.splits if_splits list.splits)
  from get obtain d where "first = PDict d"
    by (cases first) auto
  with get fs show ?thesis
    by (auto simp: no_action_def action_def split: option.splits)
qed

subsection \<open>The engine on the scenarios\<close>

lemma matches_low_cgpa:
  "map (rule_matches facts_low_cgpa) DEFAULT_RULES =
     [Inr False, Inr False, Inr False, Inr True, Inr False]"
  by (simp add: facts_low_cgpa_def catalog_defs engine_defs)

lemma matches_disciplinary:
  "map (rule_matches facts_disciplinary) DEFAULT_RULES =
     [Inr False, Inr False, Inr True, Inr False, Inr True]"
  by (simp add: facts_disciplinary_def catalog_defs engine_defs)

lemma matches_rich:
  "map (rule_matches facts_rich) DEFAULT_RULES =
     [Inr False, Inr False, Inr False, Inr False, Inr False]"
  by (simp add: facts_rich_def catalog_defs engine_defs)

lemma run_low_cgpa:
  "run_rules facts_low_cgpa DEFAULT_RULES = Inr (low_cgpa_action, [low_cgpa_rule])"
  using matches_low_cgpa
  by (simp add: run_rules_def DEFAULT_RULES_def sorted_reverse_def priority_key_def
      low_cgpa_rule_def rule_def action_def low_cgpa_action_def)

lemma run_disciplinary:
  "run_rules facts_disciplinary DEFAULT_RULES =
     Inr (disciplinary_action, [disciplinary_rule, need_based_rule])"
  using matches_disciplinary
  by (simp add: run_rules_def DEFAULT_RULES_def sorted_reverse_def priority_key_def
      disciplinary_rule_def need_based_rule_def rule_def action_def disciplinary_action_def)

lemma run_tie_rules:
  "run_rules Map.empty tie_rules = Inr (PNone, [rule_b, rule_d, rule_a, rule_c])"
  by (simp add: tie_rules_def rule_a_def rule_b_def rule_c_def rule_d_def rule_e_def
      condition_def engine_defs)


section \<open>Properties of the rule matcher\<close>

text \<open>
  Claim C6. A rule whose condition list is the empty list matches, whatever the facts:
  \<^verbatim>\<open>rule_matches(facts, rule)\<close> returns true.
\<close>

theorem empty_conditions_match:
  "map_of d (str ''conditions'') = Some (PList []) \<Longrightarrow>
   rule_matches facts (PDict d) = Inr True"
  by (simp add: rule_matches_def)

theorem empty_conditions_match_witness:
  "map_of [(str ''priority'', PInt 5), (str ''conditions'', PList [])] (str ''conditions'')
     = Some (PList [])
   \<and> rule_matches facts_rich
        (PDict [(str ''priority'', PInt 5), (str ''conditions'', PList [])]) = Inr True"
  using empty_conditions_match
    [of "[(str ''priority'', PInt 5), (str ''conditions'', PList [])]" facts_rich]
  by simp

text \<open>
  Claim C9. A rule that has no \<^verbatim>\<open>"conditions"\<close> key at all matches, whatever the facts:
  the missing key is read as the empty condition sequence.
\<close>

theorem absent_conditions_match:
  "map_of d (str ''conditions'') = None \<Longrightarrow> rule_matches facts (PDict d) = Inr True"
  by (simp add: rule_matches_def)

theorem absent_conditions_match_witness:
  "map_of [(str ''name'', PStr (str ''a'')), (str ''priority'', PInt 1)] (str ''conditions'')
     = None
   \<and> rule_matches facts_rich rule_a = Inr True"
  using absent_conditions_match
    [of "[(str ''name'', PStr (str ''a'')), (str ''priority'', PInt 1)]" facts_rich]
  by (simp add: rule_a_def)

section \<open>Properties of the engine\<close>

text \<open>
  Claim C2. If no rule of the list matches the facts, \<^verbatim>\<open>run_rules\<close> returns the action
  \<^verbatim>\<open>{"decision": "REVIEW", "reason": "No rule matched"}\<close> and an empty list of fired
  rules.
\<close>

theorem no_match_gives_review:
  assumes "\<forall>r\<in>set rules. rule_matches facts r = Inr False"
  shows "run_rules facts rules =
           Inr (PDict [(str ''decision'', PStr (str ''REVIEW'')),
                       (str ''reason'', PStr (str ''No rule matched''))], [])"
proof -
  have "\<forall>r\<in>set rules. \<exists>b. rule_matches facts r = Inr b"
    using assms by blast
  then have "fired_rules facts rules = Inr (matching facts rules)"
    by (rule fired_rules_total)
  moreover have "matching facts rules = []"
    using assms by (simp add: matching_def)
  ultimately show ?thesis
    by (simp add: run_rules_def no_rule_matched_def action_def)
qed

theorem no_match_gives_review_witness:
  "map (rule_matches facts_rich) DEFAULT_RULES =
     [Inr False, Inr False, Inr False, Inr False, Inr False]
   \<and> run_rules facts_rich DEFAULT_RULES =
       Inr (PDict [(str ''decision'', PStr (str ''REVIEW'')),
                   (str ''reason'', PStr (str ''No rule matched''))], [])"
proof -
  have h: "\<forall>r\<in>set DEFAULT_RULES. rule_matches facts_rich r = Inr False"
    using matches_rich by (simp add: DEFAULT_RULES_def)
  show ?thesis
    using matches_rich no_match_gives_review [OF h] by simp
qed

text \<open>
  Claim C3. When at least one rule matches, the list of fired rules that \<^verbatim>\<open>run_rules\<close>
  returns holds exactly the rules that match the facts, in descending order of priority,
  a rule without a priority counting as priority 0, and rules of equal priority in the
  order they have in the input list. The priorities are numbers, and matching is
  defined on every rule of the list.
\<close>

theorem fired_rules_sorted_by_priority:
  assumes "\<forall>r\<in>set rules. \<exists>b. rule_matches facts r = Inr b"
    and "matching facts rules \<noteq> []"
    and "\<forall>r\<in>set (matching facts rules). numeric_priority r \<noteq> None"
  shows "\<exists>best fs. run_rules facts rules = Inr (best, fs)
           \<and> mset fs = mset (matching facts rules)
           \<and> sorted_wrt (\<lambda>a b. the (numeric_priority a) \<ge> the (numeric_priority b)) fs
           \<and> (\<forall>p. filter (\<lambda>r. numeric_priority r = Some p) fs
                  = filter (\<lambda>r. numeric_priority r = Some p) (matching facts rules))
           \<and> (\<forall>d. map_of d (str ''priority'') = None \<longrightarrow> numeric_priority (PDict d) = Some 0)"
proof -
  let ?ms = "matching facts rules"
  let ?key = "\<lambda>r. - the (numeric_priority r)"
  let ?fs = "sort_key ?key ?ms"
  obtain best where run: "run_rules facts rules = Inr (best, ?fs)"
    using run_rules_numeric [OF assms(1) assms(3) assms(2)] by blast
  have perm: "mset ?fs = mset ?ms"
    by simp
  have "sorted (map ?key ?fs)"
    by (rule sorted_sort_key)
  then have desc: "sorted_wrt (\<lambda>a b. the (numeric_priority a) \<ge> the (numeric_priority b)) ?fs"
    by (simp add: sorted_map)
  have stable: "filter (\<lambda>r. numeric_priority r = Some p) ?fs
                  = filter (\<lambda>r. numeric_priority r = Some p) ?ms" for p
  proof -
    have eq: "(numeric_priority r = Some p) = (?key r = - p)" if "r \<in> set ?ms" for r
      using that assms(3) by auto
    have "filter (\<lambda>r. numeric_priority r = Some p) ?fs = filter (\<lambda>r. ?key r = - p) ?fs"
      by (rule filter_cong) (simp_all add: eq)
    also have "\<dots> = filter (\<lambda>r. ?key r = - p) ?ms"
      by (rule sort_key_stable)
    also have "\<dots> = filter (\<lambda>r. numeric_priority r = Some p) ?ms"
      by (rule filter_cong) (simp_all add: eq)
    finally show ?thesis .
  qed
  have absent: "numeric_priority (PDict d) = Some 0" if "map_of d (str ''priority'') = None" for d
    using that by (simp add: numeric_priority_def priority_key_def)
  show ?thesis
    using run perm desc stable absent by blast
qed

theorem fired_rules_sorted_by_priority_witness:
  "map (rule_matches Map.empty) tie_rules
     = [Inr True, Inr True, Inr True, Inr True, Inr False]
   \<and> matching Map.empty tie_rules = [rule_a, rule_b, rule_c, rule_d]
   \<and> map numeric_priority [rule_a, rule_b, rule_c, rule_d]
       = [Some 1, Some 5, Some 0, Some 5]
   \<and> (\<exists>best fs. run_rules Map.empty tie_rules = Inr (best, fs)
         \<and> mset fs = mset (matching Map.empty tie_rules)
         \<and> sorted_wrt (\<lambda>a b. the (numeric_priority a) \<ge> the (numeric_priority b)) fs
         \<and> (\<forall>p. filter (\<lambda>r. numeric_priority r = Some p) fs
                = filter (\<lambda>r. numeric_priority r = Some p) (matching Map.empty tie_rules))
         \<and> (\<forall>d. map_of d (str ''priority'') = None \<longrightarrow> numeric_priority (PDict d) = Some 0))"
proof -
  have m: "map (rule_matches Map.empty) tie_rules
             = [Inr True, Inr True, Inr True, Inr True, Inr False]"
    by (simp add: tie_rules_def rule_a_def rule_b_def rule_c_def rule_d_def rule_e_def
        condition_def rule_matches_def evaluate_condition_def)
  have h1: "\<forall>r\<in>set tie_rules. \<exists>b. rule_matches Map.empty r = Inr b"
    using m by (auto simp: tie_rules_def)
  have ms: "matching Map.empty tie_rules = [rule_a, rule_b, rule_c, rule_d]"
    using m by (simp add: matching_def tie_rules_def)
  have np: "map numeric_priority [rule_a, rule_b, rule_c, rule_d]
              = [Some 1, Some 5, Some 0, Some 5]"
    by (simp add: numeric_priority_def priority_key_def
        rule_a_def rule_b_def rule_c_def rule_d_def)
  have h2: "matching Map.empty tie_rules \<noteq> []"
    by (simp add: ms)
  have h3: "\<forall>r\<in>set (matching Map.empty tie_rules). numeric_priority r \<noteq> None"
    using np by (auto simp: ms)
  show ?thesis
    using m ms np fired_rules_sorted_by_priority [OF h1 h2 h3] by blast
qed

text \<open>
  Claim C4. When the fired set is not empty, the action that \<^verbatim>\<open>run_rules\<close> returns is
  the value under \<^verbatim>\<open>"action"\<close> of the first rule of the sorted list of fired rules,
  and \<^verbatim>\<open>{"decision": "REVIEW", "reason": "No action"}\<close> if that rule has no such key.
  The list returned is the fired set in descending order of priority, ties in input
  order; so its first rule has the greatest priority of all matching rules and is
  the earliest rule of that priority in the input. The priorities are numbers, and
  matching is defined on every rule of the list.
\<close>

theorem selected_action_of_first_fired:
  assumes "\<forall>r\<in>set rules. \<exists>b. rule_matches facts r = Inr b"
    and "matching facts rules \<noteq> []"
    and "\<forall>r\<in>set (matching facts rules). numeric_priority r \<noteq> None"
  shows "\<exists>best first rest d.
           run_rules facts rules = Inr (best, first # rest)
           \<and> mset (first # rest) = mset (matching facts rules)
           \<and> sorted_wrt (\<lambda>a b. the (numeric_priority a) \<ge> the (numeric_priority b))
                (first # rest)
           \<and> (\<forall>p. filter (\<lambda>r. numeric_priority r = Some p) (first # rest)
                  = filter (\<lambda>r. numeric_priority r = Some p) (matching facts rules))
           \<and> (\<forall>r\<in>set (matching facts rules).
                  the (numeric_priority r) \<le> the (numeric_priority first))
           \<and> first = hd (filter (\<lambda>r. numeric_priority r = numeric_priority first)
                           (matching facts rules))
           \<and> first = PDict d
           \<and> best = (case map_of d (str ''action'') of
                       Some v \<Rightarrow> v
                     | None \<Rightarrow> PDict [(str ''decision'', PStr (str ''REVIEW'')),
                                      (str ''reason'', PStr (str ''No action''))])"
proof -
  let ?ms = "matching facts rules"
  let ?np = numeric_priority
  let ?fs = "sort_key (\<lambda>r. - the (?np r)) ?ms"
  obtain best where run: "run_rules facts rules = Inr (best, ?fs)"
    using run_rules_numeric [OF assms(1) assms(3) assms(2)] by blast
  have "?fs \<noteq> []"
    using assms(2) by (metis length_sort list.size(3) length_0_conv)
  then obtain first rest where fs: "?fs = first # rest"
    by (cases ?fs) auto
  note props = sorted_fired_properties [OF assms(3)]
  have perm: "mset (first # rest) = mset ?ms"
    using props fs by simp
  have desc: "sorted_wrt (\<lambda>a b. the (?np a) \<ge> the (?np b)) (first # rest)"
    using props fs by simp
  have stable: "filter (\<lambda>r. ?np r = Some p) (first # rest) = filter (\<lambda>r. ?np r = Some p) ?ms"
    for p
    using props fs by simp
  have sets: "set ?ms = insert first (set rest)"
    using perm by (metis list.simps(15) mset_eq_setD)
  have greatest: "\<forall>r\<in>set ?ms. the (?np r) \<le> the (?np first)"
    using desc sets by auto
  have "first \<in> set ?ms"
    using sets by simp
  then obtain p where p: "?np first = Some p"
    using assms(3) by auto
  have "filter (\<lambda>r. ?np r = Some p) ?ms = first # filter (\<lambda>r. ?np r = Some p) rest"
    using stable [of p] p by simp
  then have earliest: "first = hd (filter (\<lambda>r. ?np r = ?np first) ?ms)"
    using p by simp
  obtain d where act: "first = PDict d"
    "best = (case map_of d (str ''action'') of
               Some v \<Rightarrow> v
             | None \<Rightarrow> PDict [(str ''decision'', PStr (str ''REVIEW'')),
                              (str ''reason'', PStr (str ''No action''))])"
    using returned_action_of_head [of facts rules best "first # rest"] run fs by auto
  show ?thesis
    using run fs perm desc stable greatest earliest act by metis
qed

theorem selected_action_of_first_fired_witness:
  "map (rule_matches facts_disciplinary) DEFAULT_RULES
     = [Inr False, Inr False, Inr True, Inr False, Inr True]
   \<and> matching facts_disciplinary DEFAULT_RULES = [need_based_rule, disciplinary_rule]
   \<and> map numeric_priority [need_based_rule, disciplinary_rule] = [Some 70, Some 90]
   \<and> run_rules facts_disciplinary DEFAULT_RULES
       = Inr (disciplinary_action, [disciplinary_rule, need_based_rule])
   \<and> (\<exists>best first rest d.
         run_rules facts_disciplinary DEFAULT_RULES = Inr (best, first # rest)
         \<and> mset (first # rest) = mset (matching facts_disciplinary DEFAULT_RULES)
         \<and> sorted_wrt (\<lambda>a b. the (numeric_priority a) \<ge> the (numeric_priority b))
              (first # rest)
         \<and> (\<forall>p. filter (\<lambda>r. numeric_priority r = Some p) (first # rest)
                = filter (\<lambda>r. numeric_priority r = Some p)
                    (matching facts_disciplinary DEFAULT_RULES))
         \<and> (\<forall>r\<in>set (matching facts_disciplinary DEFAULT_RULES).
                the (numeric_priority r) \<le> the (numeric_priority first))
         \<and> first = hd (filter (\<lambda>r. numeric_priority r = numeric_priority first)
                         (matching facts_disciplinary DEFAULT_RULES))
         \<and> first = PDict d
         \<and> best = (case map_of d (str ''action'') of
                     Some v \<Rightarrow> v
                   | None \<Rightarrow> PDict [(str ''decision'', PStr (str ''REVIEW'')),
                                    (str ''reason'', PStr (str ''No action''))]))
   \<and> map (rule_matches Map.empty) fallback_rules = [Inr True, Inr True]
   \<and> matching Map.empty fallback_rules = [rule_d, rule_f]
   \<and> map numeric_priority [rule_d, rule_f] = [Some 5, Some 9]
   \<and> run_rules Map.empty fallback_rules
       = Inr (PDict [(str ''decision'', PStr (str ''REVIEW'')),
                     (str ''reason'', PStr (str ''No action''))], [rule_f, rule_d])
   \<and> (\<exists>best first rest d.
         run_rules Map.empty fallback_rules = Inr (best, first # rest)
         \<and> mset (first # rest) = mset (matching Map.empty fallback_rules)
         \<and> sorted_wrt (\<lambda>a b. the (numeric_priority a) \<ge> the (numeric_priority b))
              (first # rest)
         \<and> (\<forall>p. filter (\<lambda>r. numeric_priority r = Some p) (first # rest)
                = filter (\<lambda>r. numeric_priority r = Some p)
                    (matching Map.empty fallback_rules))
         \<and> (\<forall>r\<in>set (matching Map.empty fallback_rules).
                the (numeric_priority r) \<le> the (numeric_priority first))
         \<and> first = hd (filter (\<lambda>r. numeric_priority r = numeric_priority first)
                         (matching Map.empty fallback_rules))
         \<and> first = PDict d
         \<and> best = (case map_of d (str ''action'') of
                     Some v \<Rightarrow> v
                   | None \<Rightarrow> PDict [(str ''decision'', PStr (str ''REVIEW'')),
                                    (str ''reason'', PStr (str ''No action''))]))"
proof -
  have m1: "matching facts_disciplinary DEFAULT_RULES = [need_based_rule, disciplinary_rule]"
    using matches_disciplinary by (simp add: matching_def DEFAULT_RULES_def)
  have n1: "map numeric_priority [need_based_rule, disciplinary_rule] = [Some 70, Some 90]"
    by (simp add: numeric_priority_def priority_key_def need_based_rule_def
        disciplinary_rule_def rule_def)
  have a1: "\<forall>r\<in>set DEFAULT_RULES. \<exists>b. rule_matches facts_disciplinary r = Inr b"
    using matches_disciplinary by (auto simp: DEFAULT_RULES_def)
  have a2: "matching facts_disciplinary DEFAULT_RULES \<noteq> []"
    by (simp add: m1)
  have a3: "\<forall>r\<in>set (matching facts_disciplinary DEFAULT_RULES). numeric_priority r \<noteq> None"
    using n1 by (auto simp: m1)
  note t1 = selected_action_of_first_fired [OF a1 a2 a3]
  have k2: "map (rule_matches Map.empty) fallback_rules = [Inr True, Inr True]"
    by (simp add: fallback_rules_def rule_d_def rule_f_def rule_matches_def)
  have m2: "matching Map.empty fallback_rules = [rule_d, rule_f]"
    using k2 by (simp add: matching_def fallback_rules_def)
  have n2: "map numeric_priority [rule_d, rule_f] = [Some 5, Some 9]"
    by (simp add: numeric_priority_def priority_key_def rule_d_def rule_f_def)
  have r2: "run_rules Map.empty fallback_rules
       = Inr (PDict [(str ''decision'', PStr (str ''REVIEW'')),
                     (str ''reason'', PStr (str ''No action''))], [rule_f, rule_d])"
    by (simp add: fallback_rules_def rule_d_def rule_f_def action_def engine_defs)
  have b1: "\<forall>r\<in>set fallback_rules. \<exists>b. rule_matches Map.empty r = Inr b"
    using k2 by (auto simp: fallback_rules_def)
  have b2: "matching Map.empty fallback_rules \<noteq> []"
    by (simp add: m2)
  have b3: "\<forall>r\<in>set (matching Map.empty fallback_rules). numeric_priority r \<noteq> None"
    using n2 by (auto simp: m2)
  note t2 = selected_action_of_first_fired [OF b1 b2 b3]
  show ?thesis
    by (intro conjI matches_disciplinary m1 n1 run_disciplinary t1 k2 m2 n2 r2 t2)
qed

text \<open>
  Claim C10. The fallback \<^verbatim>\<open>{"decision": "REVIEW", "reason": "No action"}\<close> stands in
  only for a missing \<^verbatim>\<open>"action"\<close> key: when the first fired rule has the key, with any
  value at all, \<^verbatim>\<open>null\<close> and the empty object included, that value is the selected
  action.
\<close>

theorem present_action_returned_unchanged:
  assumes "run_rules facts rules = Inr (best, PDict d # rest)"
    and "map_of d (str ''action'') = Some v"
  shows "best = v"
  using assms
  by (auto simp: run_rules_def split: sum.splits if_splits list.splits)

theorem present_action_returned_unchanged_witness:
  "run_rules Map.empty tie_rules =
     Inr (PNone, PDict [(str ''name'', PStr (str ''b'')), (str ''priority'', PInt 5),
                        (str ''action'', PNone)] # [rule_d, rule_a, rule_c])
   \<and> map_of [(str ''name'', PStr (str ''b'')), (str ''priority'', PInt 5),
              (str ''action'', PNone)] (str ''action'') = Some PNone
   \<and> run_rules Map.empty empty_object_rules =
     Inr (PDict [], PDict [(str ''name'', PStr (str ''no decision'')),
                           (str ''action'', PDict [])] # [])
   \<and> map_of [(str ''name'', PStr (str ''no decision'')), (str ''action'', PDict [])]
        (str ''action'') = Some (PDict [])"
proof -
  have r1: "run_rules Map.empty tie_rules =
     Inr (PNone, PDict [(str ''name'', PStr (str ''b'')), (str ''priority'', PInt 5),
                        (str ''action'', PNone)] # [rule_d, rule_a, rule_c])"
    using run_tie_rules by (simp add: rule_b_def)
  have m1: "map_of [(str ''name'', PStr (str ''b'')), (str ''priority'', PInt 5),
              (str ''action'', PNone)] (str ''action'') = Some PNone"
    by simp
  have r2: "run_rules Map.empty empty_object_rules =
     Inr (PDict [], PDict [(str ''name'', PStr (str ''no decision'')),
                           (str ''action'', PDict [])] # [])"
    by (simp add: empty_object_rules_def engine_defs)
  have m2: "map_of [(str ''name'', PStr (str ''no decision'')), (str ''action'', PDict [])]
        (str ''action'') = Some (PDict [])"
    by simp
  have "PNone = PNone" "PDict [] = PDict []"
    using present_action_returned_unchanged [OF r1 m1]
      present_action_returned_unchanged [OF r2 m2] by simp_all
  then show ?thesis
    using r1 m1 r2 m2 by blast
qed

section \<open>The default catalog on two applicants\<close>

text \<open>
  Claim C7, as amended. On the facts
  \<^verbatim>\<open>{cgpa: 2.0, co_curricular_score: 50, family_income: 3000, disciplinary_actions: 0}\<close>
  the default catalog selects REJECT with the reason
  "CGPA below minimum scholarship requirement", and the low-CGPA rule of priority 95 is
  the only rule that fires. The need-based review rule asks for \<^verbatim>\<open>cgpa >= 2.5\<close>.
\<close>

theorem low_cgpa_applicant_rejected:
  "run_rules facts_low_cgpa DEFAULT_RULES =
     Inr (PDict [(str ''decision'', PStr (str ''REJECT'')),
                 (str ''reason'',
                  PStr (str ''CGPA below minimum scholarship requirement''))],
          [low_cgpa_rule])
   \<and> numeric_priority low_cgpa_rule = Some 95"
  using run_low_cgpa
  by (simp add: low_cgpa_action_def numeric_priority_def priority_key_def
      low_cgpa_rule_def rule_def)

text \<open>
  The claim as it was stated has the need-based review rule among the fired rules. It
  is not in the list that \<^verbatim>\<open>run_rules\<close> returns.
\<close>

theorem low_cgpa_need_based_rule_does_not_fire:
  "need_based_rule \<notin> set (snd (projr (run_rules facts_low_cgpa DEFAULT_RULES)))"
  by (simp add: run_low_cgpa need_based_rule_def low_cgpa_rule_def rule_def)

text \<open>
  Claim C8, as amended. On the facts
  \<^verbatim>\<open>{cgpa: 3.9, co_curricular_score: 90, family_income: 1000, disciplinary_actions: 3}\<close>
  the default catalog selects REJECT with the reason "Too many disciplinary records".
  Two rules fire: the disciplinary rule of priority 90, which comes first, and the
  need-based review rule of priority 70.
\<close>

theorem disciplinary_applicant_rejected:
  "run_rules facts_disciplinary DEFAULT_RULES =
     Inr (PDict [(str ''decision'', PStr (str ''REJECT'')),
                 (str ''reason'', PStr (str ''Too many disciplinary records''))],
          [disciplinary_rule, need_based_rule])
   \<and> numeric_priority disciplinary_rule = Some 90
   \<and> numeric_priority need_based_rule = Some 70"
  using run_disciplinary
  by (simp add: disciplinary_action_def numeric_priority_def priority_key_def
      disciplinary_rule_def need_based_rule_def rule_def)

text \<open>
  The claim as it was stated has the disciplinary rule as the only fired rule. The list
  that \<^verbatim>\<open>run_rules\<close> returns is a different one.
\<close>

theorem disciplinary_rule_is_not_alone:
  "snd (projr (run_rules facts_disciplinary DEFAULT_RULES)) \<noteq> [disciplinary_rule]"
  by (simp add: run_disciplinary)


section \<open>What the engine does with malformed conditions\<close>

subsection \<open>Where the guards hold\<close>

text \<open>
  On a condition that has a length, \<^verbatim>\<open>evaluate_condition\<close> returns false when the
  condition does not have exactly three components, when its field is hashable and
  absent from the facts, when its field and its operator are hashable and the operator
  is not in the registry, and when applying the operator's predicate to
  \<^verbatim>\<open>(facts[field], value)\<close> raises.
\<close>

lemma evaluate_condition_fails_closed:
  "(py_len cond = Inr n \<and> n \<noteq> 3 \<longrightarrow> evaluate_condition facts cond = Inr False)
   \<and> (py_iter cond = Inr [field, op, val] \<and> hashable field \<and> lookup facts field = None
        \<longrightarrow> evaluate_condition facts cond = Inr False)
   \<and> (py_iter cond = Inr [field, op, val] \<and> hashable field \<and> hashable op
        \<and> lookup OPS op = None
        \<longrightarrow> evaluate_condition facts cond = Inr False)
   \<and> (py_iter cond = Inr [field, op, val] \<and> lookup facts field = Some x
        \<and> lookup OPS op = Some p \<and> p x val = Inl e
        \<longrightarrow> evaluate_condition facts cond = Inr False)"
proof -
  have len: "py_len cond = Inr 3" if "py_iter cond = Inr [field, op, val]"
    using that by (cases cond) auto
  have str_key: "hashable k" if "lookup m k = Some y" for m :: "pystr \<rightharpoonup> 'b" and k y
    using that by (cases k) auto
  have arity: "evaluate_condition facts cond = Inr False"
    if "py_len cond = Inr n" "n \<noteq> 3"
    using that by (simp add: evaluate_condition_def)
  have field_absent: "evaluate_condition facts cond = Inr False"
    if "py_iter cond = Inr [field, op, val]" "hashable field" "lookup facts field = None"
    using that len by (simp add: evaluate_condition_def)
  have op_unknown: "evaluate_condition facts cond = Inr False"
    if "py_iter cond = Inr [field, op, val]" "hashable field" "hashable op"
      "lookup OPS op = None"
    using that len by (simp add: evaluate_condition_def split: option.splits)
  have op_raises: "evaluate_condition facts cond = Inr False"
    if "py_iter cond = Inr [field, op, val]" "lookup facts field = Some x"
      "lookup OPS op = Some p" "p x val = Inl e"
    using that len str_key [of facts field x] str_key [of OPS op p]
    by (simp add: evaluate_condition_def)
  show ?thesis
    using arity field_absent op_unknown op_raises by blast
qed

lemma evaluate_condition_fails_closed_instances:
  "(py_len (PList [PStr (str ''cgpa''), PStr (str ''>='')]) = Inr 2 \<and> (2::nat) \<noteq> 3
    \<and> evaluate_condition facts_low_cgpa (PList [PStr (str ''cgpa''), PStr (str ''>='')])
        = Inr False)
   \<and> (py_iter (condition ''height'' ''>='' (PInt 3))
         = Inr [PStr (str ''height''), PStr (str ''>=''), PInt 3]
       \<and> hashable (PStr (str ''height''))
       \<and> lookup facts_low_cgpa (PStr (str ''height'')) = None
       \<and> evaluate_condition facts_low_cgpa (condition ''height'' ''>='' (PInt 3)) = Inr False)
   \<and> (py_iter (condition ''cgpa'' ''~='' (PInt 3))
         = Inr [PStr (str ''cgpa''), PStr (str ''~=''), PInt 3]
       \<and> hashable (PStr (str ''cgpa'')) \<and> hashable (PStr (str ''~=''))
       \<and> lookup OPS (PStr (str ''~='')) = None
       \<and> evaluate_condition facts_low_cgpa (condition ''cgpa'' ''~='' (PInt 3)) = Inr False)
   \<and> (py_iter (condition ''cgpa'' ''>='' (PStr (str ''high'')))
         = Inr [PStr (str ''cgpa''), PStr (str ''>=''), PStr (str ''high'')]
       \<and> lookup facts_low_cgpa (PStr (str ''cgpa'')) = Some (PFloat 2)
       \<and> lookup OPS (PStr (str ''>='')) = Some (py_cmp Ge)
       \<and> py_cmp Ge (PFloat 2) (PStr (str ''high'')) = Inl TypeError
       \<and> evaluate_condition facts_low_cgpa (condition ''cgpa'' ''>='' (PStr (str ''high'')))
           = Inr False)"
proof -
  have a: "py_len (PList [PStr (str ''cgpa''), PStr (str ''>='')]) = Inr 2 \<and> (2::nat) \<noteq> 3"
    by simp
  have b: "py_iter (condition ''height'' ''>='' (PInt 3))
         = Inr [PStr (str ''height''), PStr (str ''>=''), PInt 3]
       \<and> hashable (PStr (str ''height''))
       \<and> lookup facts_low_cgpa (PStr (str ''height'')) = None"
    by (simp add: condition_def facts_low_cgpa_def applicant_def)
  have c: "py_iter (condition ''cgpa'' ''~='' (PInt 3))
         = Inr [PStr (str ''cgpa''), PStr (str ''~=''), PInt 3]
       \<and> hashable (PStr (str ''cgpa'')) \<and> hashable (PStr (str ''~=''))
       \<and> lookup OPS (PStr (str ''~='')) = None"
    by (simp add: condition_def OPS_def)
  have d: "py_iter (condition ''cgpa'' ''>='' (PStr (str ''high'')))
         = Inr [PStr (str ''cgpa''), PStr (str ''>=''), PStr (str ''high'')]
       \<and> lookup facts_low_cgpa (PStr (str ''cgpa'')) = Some (PFloat 2)
       \<and> lookup OPS (PStr (str ''>='')) = Some (py_cmp Ge)
       \<and> py_cmp Ge (PFloat 2) (PStr (str ''high'')) = Inl TypeError"
    by (simp add: condition_def facts_low_cgpa_def applicant_def OPS_def)
  have t1: "evaluate_condition facts_low_cgpa (PList [PStr (str ''cgpa''), PStr (str ''>='')])
        = Inr False"
    using a evaluate_condition_fails_closed
        [of "PList [PStr (str ''cgpa''), PStr (str ''>='')]" 2 facts_low_cgpa]
    by blast
  have t2: "evaluate_condition facts_low_cgpa (condition ''height'' ''>='' (PInt 3)) = Inr False"
    using b evaluate_condition_fails_closed
        [of "condition ''height'' ''>='' (PInt 3)" _ facts_low_cgpa
            "PStr (str ''height'')" "PStr (str ''>='')" "PInt 3"]
    by blast
  have t3: "evaluate_condition facts_low_cgpa (condition ''cgpa'' ''~='' (PInt 3)) = Inr False"
    using c evaluate_condition_fails_closed
        [of "condition ''cgpa'' ''~='' (PInt 3)" _ facts_low_cgpa
            "PStr (str ''cgpa'')" "PStr (str ''~='')" "PInt 3"]
    by blast
  have t4: "evaluate_condition facts_low_cgpa (condition ''cgpa'' ''>='' (PStr (str ''high'')))
           = Inr False"
    using d evaluate_condition_fails_closed
        [of "condition ''cgpa'' ''>='' (PStr (str ''high''))" _ facts_low_cgpa
            "PStr (str ''cgpa'')" "PStr (str ''>='')" "PStr (str ''high'')"
            "PFloat 2" "py_cmp Ge" TypeError]
    by blast
  have g1: "py_len (PList [PStr (str ''cgpa''), PStr (str ''>='')]) = Inr 2 \<and> (2::nat) \<noteq> 3
    \<and> evaluate_condition facts_low_cgpa (PList [PStr (str ''cgpa''), PStr (str ''>='')])
        = Inr False"
    using a t1 by blast
  have g2: "py_iter (condition ''height'' ''>='' (PInt 3))
         = Inr [PStr (str ''height''), PStr (str ''>=''), PInt 3]
       \<and> hashable (PStr (str ''height''))
       \<and> lookup facts_low_cgpa (PStr (str ''height'')) = None
       \<and> evaluate_condition facts_low_cgpa (condition ''height'' ''>='' (PInt 3)) = Inr False"
    using b t2 by blast
  have g3: "py_iter (condition ''cgpa'' ''~='' (PInt 3))
         = Inr [PStr (str ''cgpa''), PStr (str ''~=''), PInt 3]
       \<and> hashable (PStr (str ''cgpa'')) \<and> hashable (PStr (str ''~=''))
       \<and> lookup OPS (PStr (str ''~='')) = None
       \<and> evaluate_condition facts_low_cgpa (condition ''cgpa'' ''~='' (PInt 3)) = Inr False"
    using c t3 by blast
  have g4: "py_iter (condition ''cgpa'' ''>='' (PStr (str ''high'')))
         = Inr [PStr (str ''cgpa''), PStr (str ''>=''), PStr (str ''high'')]
       \<and> lookup facts_low_cgpa (PStr (str ''cgpa'')) = Some (PFloat 2)
       \<and> lookup OPS (PStr (str ''>='')) = Some (py_cmp Ge)
       \<and> py_cmp Ge (PFloat 2) (PStr (str ''high'')) = Inl TypeError
       \<and> evaluate_condition facts_low_cgpa (condition ''cgpa'' ''>='' (PStr (str ''high'')))
           = Inr False"
    using d t4 by blast
  show ?thesis
    by (rule conjI [OF g1 conjI [OF g2 conjI [OF g3 g4]]])
qed

text \<open>
  A condition that is enough for \<^verbatim>\<open>run_rules\<close> to return, though not a necessary one:
  every rule is well formed. It admits conditions of the wrong arity, on unknown fields,
  with unknown operators and with operands of incompatible types.
\<close>

lemma run_rules_returns_on_well_formed_rules:
  assumes "list_all well_formed_rule rules"
  shows "\<exists>best fired. run_rules facts rules = Inr (best, fired)"
proof -
  have wf: "well_formed_rule r" if "r \<in> set rules" for r
    using assms that by (simp add: list_all_iff)
  have defined: "\<forall>r\<in>set rules. \<exists>b. rule_matches facts r = Inr b"
    using wf rule_matches_returns by blast
  show ?thesis
  proof (cases "matching facts rules = []")
    case True
    with fired_rules_total [OF defined] show ?thesis
      by (simp add: run_rules_def)
  next
    case False
    have "\<forall>r\<in>set (matching facts rules). numeric_priority r \<noteq> None"
      using wf by (auto simp: matching_def well_formed_rule_def)
    from run_rules_numeric [OF defined this False] show ?thesis
      by blast
  qed
qed

lemma run_rules_returns_on_malformed_rules:
  "list_all well_formed_rule malformed_rules
   \<and> (\<exists>best fired. run_rules facts_low_cgpa malformed_rules = Inr (best, fired))"
proof -
  have wf: "list_all well_formed_rule malformed_rules"
    by (simp add: malformed_rules_def well_formed_rule_def condition_def action_def
        numeric_priority_def priority_key_def)
  show ?thesis
    using wf run_rules_returns_on_well_formed_rules [OF wf, of facts_low_cgpa] by blast
qed

subsection \<open>Where they do not\<close>

text \<open>
  Claim C5. For every facts mapping and every condition, \<^verbatim>\<open>evaluate_condition\<close>
  returns false, rather than raising, whenever the condition does not have exactly
  three components, or its field is absent from the facts, or its operator is not in
  the registry, or applying the operator's predicate raises.

  The code does not do this for the condition \<^verbatim>\<open>["cgpa", [">="], 3]\<close> on facts that
  have a \<^verbatim>\<open>cgpa\<close>. The operator is a list, so it is not in the registry; the guard
  \<^verbatim>\<open>op not in OPS\<close>, which is there to return false, hashes it and raises
  \<^verbatim>\<open>TypeError\<close> (unhashable type), outside the \<^verbatim>\<open>try\<close>.
\<close>

theorem evaluate_condition_list_operator_raises:
  "evaluate_condition facts_low_cgpa list_operator_condition = Inl TypeError"
  by (simp add: list_operator_condition_def facts_low_cgpa_def applicant_def
      evaluate_condition_def)

text \<open>
  The same condition on facts without a \<^verbatim>\<open>cgpa\<close> returns false: the first guard
  answers before the operator is looked at.
\<close>

lemma list_operator_on_absent_field_is_false:
  "evaluate_condition Map.empty list_operator_condition = Inr False"
  by (simp add: list_operator_condition_def evaluate_condition_def)

text \<open>
  Claim C1. For every facts mapping and every rule list, \<^verbatim>\<open>run_rules\<close> is total: it
  returns a pair of a selected action and a list of fired rules and never raises, also
  when the rule list has malformed conditions.

  The code does not do this for a rule list that holds the condition
  \<^verbatim>\<open>["cgpa", [">="], 3]\<close>, on facts that have a \<^verbatim>\<open>cgpa\<close>: the \<^verbatim>\<open>TypeError\<close> of
  \<^verbatim>\<open>evaluate_condition\<close> passes through \<^verbatim>\<open>rule_matches\<close> and \<^verbatim>\<open>run_rules\<close>, which
  catch nothing.
\<close>

theorem run_rules_list_operator_raises:
  "run_rules facts_low_cgpa list_operator_rules = Inl TypeError"
  by (simp add: list_operator_rules_def list_operator_condition_def facts_low_cgpa_def
      applicant_def run_rules_def rule_matches_def evaluate_condition_def)

end
